theory Spec2Isabelle
  imports Complex_Main "HOL-Library.Word"
begin

section \<open>Kinematics: constants and the MirrorStates class (primary\_mirror\_ctrl.h)\<close>

text \<open>
  The header computes its conversion constants as \<open>constexpr double\<close> values. Doubles are
  modelled as reals throughout, so the development is about the exact-arithmetic function
  that the firmware approximates: every statement about step counts below is a statement
  in exact real arithmetic, and it carries over to the doubles only where the exact
  scaled distance is not within rounding error of an integer.
\<close>

definition MICROSTEP_DIVIDER :: real where
  "MICROSTEP_DIVIDER = 16"

definition MICROSTEP_RATIO :: real where
  "MICROSTEP_RATIO = 1.0 / MICROSTEP_DIVIDER"

definition MICRON_PER_STEP :: real where
  "MICRON_PER_STEP = 3 * MICROSTEP_RATIO"

definition STEPS_PER_MICRON :: real where
  "STEPS_PER_MICRON = 1.0 / MICRON_PER_STEP"

definition MIRROR_MATH_COEFFS :: "real list" where
  "MIRROR_MATH_COEFFS = [281.3, - 140.6, 243.6]"

record MirrorStates =
  TIP_POS_ENG :: real
  TILT_POS_ENG :: real
  FOCUS_POS_ENG :: real

text \<open>
  The C-style cast \<open>(T)(x)\<close> of a double to an integer type discards the fractional part
  (truncation toward zero). The controller keeps its step commands in \<open>int32_t\<close> fields
  (\<open>A_cmdSteps\<close>, \<open>B_cmdSteps\<close>, \<open>C_cmdSteps\<close>), so \<open>T\<close> is taken to be \<open>int32_t\<close>; a
  value whose truncation does not fit that type has no defined conversion, which the
  model reports as \<open>None\<close>.
\<close>

definition trunc_toward_zero :: "real \<Rightarrow> int" where
  "trunc_toward_zero x = (if 0 \<le> x then \<lfloor>x\<rfloor> else \<lceil>x\<rceil>)"

definition INT32_MIN :: int where
  "INT32_MIN = - (2 ^ 31)"

definition INT32_MAX :: int where
  "INT32_MAX = 2 ^ 31 - 1"

definition cast_int32 :: "real \<Rightarrow> int option" where
  "cast_int32 x =
     (let t = trunc_toward_zero x
      in if INT32_MIN \<le> t \<and> t \<le> INT32_MAX then Some t else None)"

text \<open>
  \<open>MirrorStates::getMotorPosnCommands\<close>. The three output pointers become the returned
  triple. HOL's \<open>tan\<close> and division are total (\<open>x / 0 = 0\<close>); where the cosine of the
  tip or of the tilt angle vanishes the real-valued formula has no value (the doubles
  would be infinite and their conversion undefined), so the model returns \<open>None\<close> there.
\<close>

definition getMotorPosnCommands :: "MirrorStates \<Rightarrow> (int \<times> int \<times> int) option" where
  "getMotorPosnCommands m =
     (let tanAlpha = tan (TIP_POS_ENG m);
          cosAlpha = cos (TIP_POS_ENG m);
          tanBeta = tan (TILT_POS_ENG m);
          gamma = FOCUS_POS_ENG m;
          a_distance = gamma + (MIRROR_MATH_COEFFS ! 0 * tanAlpha);
          b_distance = gamma + (MIRROR_MATH_COEFFS ! 1 * tanAlpha
                                + MIRROR_MATH_COEFFS ! 2 * tanBeta / cosAlpha);
          c_distance = gamma + (MIRROR_MATH_COEFFS ! 1 * tanAlpha
                                - MIRROR_MATH_COEFFS ! 2 * tanBeta / cosAlpha)
      in if cosAlpha = 0 \<or> cos (TILT_POS_ENG m) = 0 then None
         else case cast_int32 (a_distance * STEPS_PER_MICRON) of
                None \<Rightarrow> None
              | Some a_steps \<Rightarrow>
                 (case cast_int32 (b_distance * STEPS_PER_MICRON) of
                    None \<Rightarrow> None
                  | Some b_steps \<Rightarrow>
                     (case cast_int32 (c_distance * STEPS_PER_MICRON) of
                        None \<Rightarrow> None
                      | Some c_steps \<Rightarrow> Some (a_steps, b_steps, c_steps))))"

section \<open>The controller object (class PrimaryMirrorControl)\<close>

text \<open>
  The header declares the class; the bodies of its methods are in a translation unit that
  is missing from the sources. The record keeps the private members the foreground
  program reaches through the public methods (\<open>controlMode\<close>, the move and homing states,
  the two notifier pointers), with the enumerations as datatypes. For the collaborators
  behind the class it keeps what the spec says they hold: the commanded velocity of each
  actuator in the step-pulse generator, the persistent position record, the positions
  restored from it, and whether the control tick is running.
\<close>

datatype MOVE_STATE =
  IDLE | NEW_MOVE_CMD | MOVE_IN_PROGRESS | MOVE_COMPLETE | LIMIT_SW_DETECT | HOMING_IS_ACTIVE

datatype HOMING_STATE =
  INITIALIZE | HOMING_STEP_1 | HOMING_STEP_2 | HOMING_STEP_3 | HOMING_STEP_4 | HOMING_STEP_5

datatype MOTOR_ID = MOTOR_A | MOTOR_B | MOTOR_C

datatype ControlMode = STOP | RELATIVE | ABSOLUTE

fun ControlMode_code :: "ControlMode \<Rightarrow> 8 word" where
  "ControlMode_code STOP = 0"
| "ControlMode_code RELATIVE = 1"
| "ControlMode_code ABSOLUTE = 2"

text \<open>
  The only \<open>volatile bool\<close> object of main.cpp whose address is handed to the controller.
\<close>

datatype flag_address = Addr_moveCompleteFlag

record PersistentPositionRecord =
  stored_a :: int
  stored_b :: int
  stored_c :: int
  stored_valid :: bool

record PrimaryMirrorControl =
  controlMode :: "8 word"
  currentMoveState :: MOVE_STATE
  currentHomingState :: HOMING_STATE
  moveNotifierFlagPtr :: "flag_address option"
  homeNotifierFlagPtr :: "flag_address option"
  commandedVelocity :: "MOTOR_ID \<Rightarrow> real"
  eepromRecord :: PersistentPositionRecord
  restoredPositions :: "(int \<times> int \<times> int) option"
  controlInterruptEnabled :: bool

text \<open>
  Modelled from the spec: the body of \<open>PrimaryMirrorControl::setControlMode\<close> is missing
  from the sources. The spec lists \<open>setControlMode(mode)\<close> as the command that selects how
  a buffered target is interpreted; the header declares the parameter and the member
  \<open>controlMode\<close> as \<open>uint8_t\<close>. The model stores the argument.
\<close>

definition setControlMode :: "8 word \<Rightarrow> PrimaryMirrorControl \<Rightarrow> PrimaryMirrorControl" where
  "setControlMode moveType_arg p = p\<lparr>controlMode := moveType_arg\<rparr>"

text \<open>
  Modelled from the spec: the body of \<open>PrimaryMirrorControl::stopNow\<close> is missing from the
  sources. The spec says that on \<open>Stop()\<close> the move state goes to \<open>IDLE\<close> from any state,
  that the move and homing states are reset to \<open>IDLE\<close> and \<open>INITIALIZE\<close>, and that the
  step-pulse generator is synchronously forced to idle (zero commanded velocity).
\<close>

definition stopNow :: "PrimaryMirrorControl \<Rightarrow> PrimaryMirrorControl" where
  "stopNow p =
     p\<lparr>currentMoveState := IDLE,
       currentHomingState := INITIALIZE,
       commandedVelocity := (\<lambda>motor. 0)\<rparr>"

text \<open>
  Modelled from the spec: the bodies of \<open>setMoveNotifierFlag\<close> and
  \<open>setHomingCompleteNotifierFlag\<close> are missing from the sources. The header declares the
  members \<open>moveNotifierFlagPtr\<close> and \<open>homeNotifierFlagPtr\<close>; each setter registers the flag
  the foreground polls by storing its address.
\<close>

definition setMoveNotifierFlag ::
  "flag_address \<Rightarrow> PrimaryMirrorControl \<Rightarrow> PrimaryMirrorControl" where
  "setMoveNotifierFlag flagPtr p = p\<lparr>moveNotifierFlagPtr := Some flagPtr\<rparr>"

definition setHomingCompleteNotifierFlag ::
  "flag_address \<Rightarrow> PrimaryMirrorControl \<Rightarrow> PrimaryMirrorControl" where
  "setHomingCompleteNotifierFlag flagPtr p = p\<lparr>homeNotifierFlagPtr := Some flagPtr\<rparr>"

text \<open>
  Modelled from the spec: the body of \<open>resetPositionsInEeprom\<close> is missing from the
  sources. The spec's \<open>reset()\<close> of the position persistence forces \<open>valid = false\<close>.
\<close>

definition resetPositionsInEeprom :: "PrimaryMirrorControl \<Rightarrow> PrimaryMirrorControl" where
  "resetPositionsInEeprom p = p\<lparr>eepromRecord := (eepromRecord p)\<lparr>stored_valid := False\<rparr>\<rparr>"

text \<open>
  Modelled from the spec: the body of \<open>loadCurrentPositionsFromEeprom\<close> is missing from
  the sources. The spec's \<open>load()\<close> returns the stored step counts, or nothing when the
  stored \<open>valid\<close> marker is unset; the controller keeps what was restored.
\<close>

definition load :: "PersistentPositionRecord \<Rightarrow> (int \<times> int \<times> int) option" where
  "load r = (if stored_valid r then Some (stored_a r, stored_b r, stored_c r) else None)"

definition loadCurrentPositionsFromEeprom :: "PrimaryMirrorControl \<Rightarrow> PrimaryMirrorControl" where
  "loadCurrentPositionsFromEeprom p = p\<lparr>restoredPositions := load (eepromRecord p)\<rparr>"

text \<open>
  Modelled from the spec: the body of \<open>enableControlInterrupt\<close> is missing from the
  sources; it starts the periodic control tick.
\<close>

definition enableControlInterrupt :: "PrimaryMirrorControl \<Rightarrow> PrimaryMirrorControl" where
  "enableControlInterrupt p = p\<lparr>controlInterruptEnabled := True\<rparr>"

section \<open>The foreground program (main.cpp)\<close>

text \<open>
  A \<open>CommsMessage\<close> is the list of key/value pairs added to it. The state of the foreground
  program is the controller singleton behind \<open>pPmc\<close>, the messages handed to
  \<open>commsService->sendMessage\<close> (oldest first), the lines printed with
  \<open>cli->printDebugMessage\<close>, and the global \<open>moveCompleteFlag\<close>. \<open>unsigned int\<close> is 32 bits
  wide on the target.
\<close>

datatype msg_value = UIntVal "32 word" | BoolVal bool | DoubleVal real | StringVal string

type_synonym CommsMessage = "(string \<times> msg_value) list"

record World =
  pmc :: PrimaryMirrorControl
  sent :: "CommsMessage list"
  debugMessages :: "string list"
  moveCompleteFlag :: bool

definition sendMessage :: "CommsMessage \<Rightarrow> World \<Rightarrow> World" where
  "sendMessage newMsg w = w\<lparr>sent := sent w @ [newMsg]\<rparr>"

definition printDebugMessage :: "string \<Rightarrow> World \<Rightarrow> World" where
  "printDebugMessage line w = w\<lparr>debugMessages := debugMessages w @ [line]\<rparr>"

text \<open>
  \<open>setup()\<close>. When the network interface does not come up the function spins in
  \<open>while (true)\<close> and never returns: the result is \<open>None\<close>. Otherwise the handlers are
  registered (which leaves the state kept here unchanged) and the controller is prepared
  by the four calls of lines 115 to 119, in the order of the source.
\<close>

definition setup_main :: "bool \<Rightarrow> World \<Rightarrow> World option" where
  "setup_main commsStatus w =
     (if \<not> commsStatus then None
      else
        let w1 = w\<lparr>pmc := setMoveNotifierFlag Addr_moveCompleteFlag (pmc w)\<rparr>;
            w2 = w1\<lparr>pmc := resetPositionsInEeprom (pmc w1)\<rparr>;
            w3 = w2\<lparr>pmc := loadCurrentPositionsFromEeprom (pmc w2)\<rparr>;
            w4 = printDebugMessage ''Initialization complete'' w3
        in Some (w4\<lparr>pmc := enableControlInterrupt (pmc w4)\<rparr>))"

text \<open>
  \<open>loop()\<close>. The transport work of lines 136 to 142 (accepting clients, dispatching the
  handlers for received data, dropping dead clients) is the parameter \<open>serviceClients\<close>;
  the flag is read after it.
\<close>

definition loop :: "(World \<Rightarrow> World) \<Rightarrow> World \<Rightarrow> World" where
  "loop serviceClients w =
     (let w1 = serviceClients w
      in if moveCompleteFlag w1
         then (printDebugMessage ''Move Complete.''
                 (sendMessage [(''MoveComplete'', UIntVal 0xBEEF)] w1))\<lparr>moveCompleteFlag := False\<rparr>
         else w1)"

text \<open>The command handlers registered by \<open>setup()\<close>.\<close>

definition handshake :: "32 word \<Rightarrow> World \<Rightarrow> World" where
  "handshake val w =
     (if val = 0xDEAD
      then printDebugMessage ''Connected to client.''
             (sendMessage [(''Handshake'', UIntVal 0xBEEF)] w)
      else w)"

text \<open>
  \<open>moveType\<close>: the \<open>unsigned int\<close> argument is converted to the \<open>uint8_t\<close> parameter of
  \<open>setControlMode\<close> by the call itself; the range check is commented out in the source.
\<close>

definition moveType :: "32 word \<Rightarrow> World \<Rightarrow> World" where
  "moveType mode w = w\<lparr>pmc := setControlMode (ucast mode) (pmc w)\<rparr>"

text \<open>
  \<open>getStatus\<close>: the controller method is declared \<open>bool getStatus(uint8_t motor)\<close>; its
  body is missing from the sources, so it is a parameter of the declared result type.
\<close>

definition getStatus ::
  "(PrimaryMirrorControl \<Rightarrow> MOTOR_ID \<Rightarrow> bool) \<Rightarrow> real \<Rightarrow> World \<Rightarrow> World" where
  "getStatus pmc_getStatus lst w =
     sendMessage
       [(''ARunning?'', BoolVal (pmc_getStatus (pmc w) MOTOR_A)),
        (''BRunning?'', BoolVal (pmc_getStatus (pmc w) MOTOR_B)),
        (''CRunning?'', BoolVal (pmc_getStatus (pmc w) MOTOR_C))] w"

definition stop :: "real \<Rightarrow> World \<Rightarrow> World" where
  "stop lst w = sendMessage [(''Stopped'', StringVal ''$OK^'')] (w\<lparr>pmc := stopNow (pmc w)\<rparr>)"

section \<open>Facts about the conversion to steps\<close>

lemma STEPS_PER_MICRON_value: "STEPS_PER_MICRON = 16 / 3"
  by (simp add: STEPS_PER_MICRON_def MICRON_PER_STEP_def MICROSTEP_RATIO_def
      MICROSTEP_DIVIDER_def)


lemma trunc_toward_zero_close: "\<bar>x - real_of_int (trunc_toward_zero x)\<bar> < 1"
  unfolding trunc_toward_zero_def by (simp; linarith)

text \<open>
  The link to the doubles. The truncation only changes at the nonzero integers, so a
  computed scaled distance \<open>x'\<close> within \<open>d\<close> of the exact one \<open>x\<close> gives the same step
  count whenever \<open>x\<close> is further than \<open>d\<close> from every nonzero integer. Closer to an
  integer than the rounding error of the double computation, the firmware can return the
  neighbouring count.
\<close>

lemma trunc_toward_zero_stable:
  assumes near: "\<bar>x' - x\<bar> \<le> d"
    and off: "\<And>k :: int. k \<noteq> 0 \<Longrightarrow> d < \<bar>x - real_of_int k\<bar>"
  shows "trunc_toward_zero x' = trunc_toward_zero x"
proof -
  have up: "x' < real_of_int k" if "x < real_of_int k" and "k \<noteq> 0" for k
    using off [OF that(2)] that(1) near by linarith
  have down: "real_of_int k < x'" if "real_of_int k < x" and "k \<noteq> 0" for k
    using off [OF that(2)] that(1) near by linarith
  have ne: "x \<noteq> real_of_int k" if "k \<noteq> 0" for k
    using off [OF that] near by linarith
  show ?thesis
  proof (cases "1 \<le> x")
    case True
    define t where "t = \<lfloor>x\<rfloor>"
    have t1: "1 \<le> t" using True by (simp add: t_def le_floor_iff)
    have "real_of_int t \<le> x" by (simp add: t_def)
    then have "real_of_int t < x" using ne [of t] t1 by linarith
    then have lo: "real_of_int t < x'" using down [of t] t1 by simp
    have "x < real_of_int (t + 1)" by (simp add: t_def)
    then have hi: "x' < real_of_int (t + 1)" using up [of "t + 1"] t1 by simp
    have "\<lfloor>x'\<rfloor> = t" using lo hi by (intro floor_unique) simp_all
    moreover have "0 \<le> x'" using lo t1 by linarith
    ultimately show ?thesis using True by (simp add: trunc_toward_zero_def t_def)
  next
    case False
    show ?thesis
    proof (cases "x \<le> - 1")
      case True
      define t where "t = \<lceil>x\<rceil>"
      have t1: "t \<le> - 1" using True by (simp add: t_def ceiling_le_iff)
      have "x \<le> real_of_int t" by (simp add: t_def)
      then have "x < real_of_int t" using ne [of t] t1 by linarith
      then have hi: "x' < real_of_int t" using up [of t] t1 by simp
      have "real_of_int (t - 1) < x" unfolding t_def by linarith
      then have lo: "real_of_int (t - 1) < x'" using down [of "t - 1"] t1 by simp
      have "\<lceil>x'\<rceil> = t" using lo hi by (intro ceiling_unique) simp_all
      moreover have "x' < 0" using hi t1 by linarith
      ultimately show ?thesis using True by (simp add: trunc_toward_zero_def t_def)
    next
      case False
      with \<open>\<not> 1 \<le> x\<close> have x: "- 1 < x" "x < 1" by simp_all
      have "x' < 1" using up [of 1] x by simp
      moreover have "- 1 < x'" using down [of "- 1"] x by simp
      ultimately have "trunc_toward_zero x' = 0"
        by (simp add: trunc_toward_zero_def floor_eq_iff ceiling_eq_iff)
      moreover have "trunc_toward_zero x = 0"
        using x by (simp add: trunc_toward_zero_def floor_eq_iff ceiling_eq_iff)
      ultimately show ?thesis by simp
    qed
  qed
qed


lemma cast_int32_eqI:
  assumes "0 \<le> n" and "n \<le> INT32_MAX" and "real_of_int n \<le> x" and "x < real_of_int n + 1"
  shows "cast_int32 x = Some n"
proof -
  have "0 \<le> x" using assms by linarith
  moreover have "\<lfloor>x\<rfloor> = n" using assms by (simp add: floor_unique)
  ultimately have "trunc_toward_zero x = n"
    by (simp add: trunc_toward_zero_def)
  then show ?thesis
    using assms by (simp add: cast_int32_def INT32_MIN_def)
qed

lemma cast_int32_zero: "cast_int32 0 = Some 0"
  by (simp add: cast_int32_def trunc_toward_zero_def INT32_MIN_def INT32_MAX_def)

lemma cast_int32_eight_thirds: "cast_int32 (8 / 3) = Some 2"
  by (simp add: cast_int32_def trunc_toward_zero_def INT32_MIN_def INT32_MAX_def)

lemma cast_int32_pos_example: "cast_int32 (6496 / 5) = Some 1299"
  by (simp add: cast_int32_def trunc_toward_zero_def INT32_MIN_def INT32_MAX_def)

lemma cast_int32_neg_example: "cast_int32 (- (6496 / 5)) = Some (- 1299)"
  by (simp add: cast_int32_def trunc_toward_zero_def INT32_MIN_def INT32_MAX_def)

lemma steps_at_half_micron:
  "getMotorPosnCommands \<lparr>TIP_POS_ENG = 0, TILT_POS_ENG = 0, FOCUS_POS_ENG = 1 / 2\<rparr>
     = Some (2, 2, 2)"
  using cast_int32_eight_thirds
  by (simp add: getMotorPosnCommands_def Let_def MIRROR_MATH_COEFFS_def STEPS_PER_MICRON_value)

lemma steps_at_tilt_45:
  "getMotorPosnCommands \<lparr>TIP_POS_ENG = 0, TILT_POS_ENG = pi / 4, FOCUS_POS_ENG = 0\<rparr>
     = Some (0, 1299, - 1299)"
proof -
  have "cos (pi / 4 :: real) \<noteq> 0"
    by (simp add: cos_45)
  then show ?thesis
    using cast_int32_pos_example cast_int32_neg_example cast_int32_zero
    by (simp add: getMotorPosnCommands_def Let_def MIRROR_MATH_COEFFS_def
        STEPS_PER_MICRON_value tan_45)
qed

subsection \<open>Bounds on the tangent of a small angle\<close>

lemma sin_lower_cubic:
  fixes x :: real
  assumes "0 \<le> x"
  shows "x - x ^ 3 / 6 \<le> sin x"
proof -
  have "\<bar>sin x - (\<Sum>m<3. sin_coeff m * x ^ m)\<bar> \<le> inverse (fact 3) * \<bar>x\<bar> ^ 3"
    by (rule Maclaurin_sin_bound)
  moreover have "(\<Sum>m<3. sin_coeff m * x ^ m) = x"
    by (simp add: sin_coeff_def eval_nat_numeral)
  moreover have "inverse (fact 3) * \<bar>x\<bar> ^ 3 = x ^ 3 / 6"
    using assms by (simp add: eval_nat_numeral field_simps)
  ultimately show ?thesis by linarith
qed

lemma tan_small_bounds:
  fixes x :: real
  assumes "0 < x" and "x < 1"
  shows "x - x ^ 3 / 6 \<le> tan x" and "tan x \<le> x / (1 - x\<^sup>2)"
proof -
  have xpi: "x < pi / 2" using assms pi_ge_two by linarith
  have c0: "0 < cos x" using assms xpi by (simp add: cos_gt_zero)
  have c1: "cos x \<le> 1" by simp
  have s0: "0 \<le> sin x" using assms xpi by (intro sin_ge_zero) linarith+
  have s1: "sin x \<le> x" using assms by (simp add: sin_x_le_x)
  have "sin x * cos x \<le> sin x * 1"
    by (rule mult_left_mono [OF c1 s0])
  then have "sin x \<le> sin x / cos x"
    using c0 by (simp add: field_simps)
  then show "x - x ^ 3 / 6 \<le> tan x"
    using sin_lower_cubic [of x] assms by (simp add: tan_def)
  have "(sin x)\<^sup>2 \<le> x\<^sup>2"
    using s0 s1 by (simp add: power_mono)
  then have "1 - x\<^sup>2 \<le> (cos x)\<^sup>2"
    using sin_cos_squared_add [of x] by linarith
  also have "(cos x)\<^sup>2 \<le> cos x"
    using c0 c1 by (simp add: power2_eq_square mult_left_le)
  finally have cl: "1 - x\<^sup>2 \<le> cos x" .
  have "x * x < 1 * 1"
    by (rule mult_strict_mono) (use assms in auto)
  then have pos: "0 < 1 - x\<^sup>2"
    by (simp add: power2_eq_square)
  have "sin x / cos x \<le> x / (1 - x\<^sup>2)"
    by (rule frac_le) (use s0 s1 cl pos assms in auto)
  then show "tan x \<le> x / (1 - x\<^sup>2)"
    by (simp add: tan_def)
qed

lemma tan_one_hundredth:
  "(99998 / 10000000 :: real) < tan (1 / 100)" "tan (1 / 100) < (10002 / 1000000 :: real)"
proof -
  have "(99998 / 10000000 :: real) < 1 / 100 - (1 / 100) ^ 3 / 6"
    by (simp add: eval_nat_numeral)
  also have "\<dots> \<le> tan (1 / 100)"
    by (rule tan_small_bounds(1)) simp_all
  finally show "(99998 / 10000000 :: real) < tan (1 / 100)" .
  have "tan (1 / 100 :: real) \<le> (1 / 100) / (1 - (1 / 100)\<^sup>2)"
    by (rule tan_small_bounds(2)) simp_all
  also have "\<dots> < 10002 / 1000000"
    by (simp add: eval_nat_numeral)
  finally show "tan (1 / 100) < (10002 / 1000000 :: real)" .
qed

lemma cos_one_hundredth_nonzero: "cos (1 / 100 :: real) \<noteq> 0"
proof -
  have "(1 / 100 :: real) < pi / 2" using pi_ge_two by linarith
  then have "0 < cos (1 / 100 :: real)" by (simp add: cos_gt_zero)
  then show ?thesis by simp
qed

lemma steps_at_example:
  "getMotorPosnCommands \<lparr>TIP_POS_ENG = 1 / 100, TILT_POS_ENG = 0, FOCUS_POS_ENG = 50\<rparr>
     = Some (281, 259, 259)"
proof -
  let ?t = "tan (1 / 100 :: real)"
  note b = tan_one_hundredth
  have a: "cast_int32 ((50 + 2813 / 10 * ?t) * (16 / 3)) = Some 281"
    by (rule cast_int32_eqI) (use b in \<open>simp_all add: INT32_MAX_def\<close>)
  have bc: "cast_int32 ((50 + - (1406 / 10) * ?t) * (16 / 3)) = Some 259"
    by (rule cast_int32_eqI) (use b in \<open>simp_all add: INT32_MAX_def\<close>)
  show ?thesis
    using a bc cos_one_hundredth_nonzero
    by (simp add: getMotorPosnCommands_def Let_def MIRROR_MATH_COEFFS_def STEPS_PER_MICRON_value)
qed

lemma rounded_steps_at_example:
  "round ((50 + 281.3 * tan (1 / 100 :: real)) * STEPS_PER_MICRON) = 282"
proof -
  note b = tan_one_hundredth
  have "\<lfloor>(50 + 2813 / 10 * tan (1 / 100 :: real)) * (16 / 3) + 1 / 2\<rfloor> = 282"
  proof (rule floor_unique)
    show "real_of_int 282 \<le> (50 + 2813 / 10 * tan (1 / 100 :: real)) * (16 / 3) + 1 / 2"
      using b by (simp add: field_simps)
    show "(50 + 2813 / 10 * tan (1 / 100 :: real)) * (16 / 3) + 1 / 2 < real_of_int 282 + 1"
      using b by (simp add: field_simps)
  qed
  then show ?thesis
    by (simp add: round_def STEPS_PER_MICRON_value)
qed

section \<open>The kinematics engine\<close>




text \<open>
  Claim C5, as the code has it. With the coefficients \<open>(281.3, -140.6, 243.6)\<close> and
  \<open>STEPS_PER_MICRON = 16 / 3\<close> (about 5.333), the target tip = 0.01 rad, tilt = 0,
  focus = 50 microns gives \<open>distA = 50 + 281.3 * tan 0.01\<close>, which lies between 52.81 and
  52.82, and an A-actuator step count of 281: the scaled distance of about 281.67 with
  its fraction cut off. B and C both receive 259.
\<close>

theorem example_scenario_steps:
  "MIRROR_MATH_COEFFS = [281.3, - 140.6, 243.6]
   \<and> STEPS_PER_MICRON = 16 / 3
   \<and> 52.81 < 50 + 281.3 * tan (0.01 :: real)
   \<and> 50 + 281.3 * tan (0.01 :: real) < 52.82
   \<and> getMotorPosnCommands \<lparr>TIP_POS_ENG = 0.01, TILT_POS_ENG = 0, FOCUS_POS_ENG = 50\<rparr>
       = Some (281, 259, 259)"
proof -
  have "52.81 < 50 + 281.3 * tan (0.01 :: real)"
    using tan_one_hundredth(1) by simp
  moreover have "50 + 281.3 * tan (0.01 :: real) < 52.82"
    using tan_one_hundredth(2) by simp
  moreover have
    "getMotorPosnCommands \<lparr>TIP_POS_ENG = 0.01, TILT_POS_ENG = 0, FOCUS_POS_ENG = 50\<rparr>
       = Some (281, 259, 259)"
    using steps_at_example by simp
  ultimately show ?thesis
    by (simp add: MIRROR_MATH_COEFFS_def STEPS_PER_MICRON_value)
qed

text \<open>
  For the same target the nearest integer to the scaled A distance is 282, which is not
  the count the code returns.
\<close>

theorem example_scenario_not_282:
  "round ((50 + 281.3 * tan (0.01 :: real)) * STEPS_PER_MICRON) = 282
   \<and> map_option fst
         (getMotorPosnCommands \<lparr>TIP_POS_ENG = 0.01, TILT_POS_ENG = 0, FOCUS_POS_ENG = 50\<rparr>)
       \<noteq> Some 282"
proof -
  have "round ((50 + 281.3 * tan (0.01 :: real)) * STEPS_PER_MICRON) = 282"
    using rounded_steps_at_example by simp
  moreover have
    "getMotorPosnCommands \<lparr>TIP_POS_ENG = 0.01, TILT_POS_ENG = 0, FOCUS_POS_ENG = 50\<rparr>
       = Some (281, 259, 259)"
    using steps_at_example by simp
  ultimately show ?thesis by simp
qed

text \<open>
  Claim C8. For every tip and focus, negating the tilt input of \<open>getMotorPosnCommands\<close>
  exchanges the B and C step outputs and leaves the A output unchanged (in exact real
  arithmetic); and when the tilt is zero the B and C step counts are equal.
\<close>

theorem negating_tilt_swaps_B_and_C:
  "getMotorPosnCommands (m\<lparr>TILT_POS_ENG := - TILT_POS_ENG m\<rparr>)
     = map_option (\<lambda>(a, b, c). (a, c, b)) (getMotorPosnCommands m)
   \<and> (TILT_POS_ENG m = 0 \<longrightarrow>
        (\<forall>a b c. getMotorPosnCommands m = Some (a, b, c) \<longrightarrow> b = c))"
proof
  show "getMotorPosnCommands (m\<lparr>TILT_POS_ENG := - TILT_POS_ENG m\<rparr>)
     = map_option (\<lambda>(a, b, c). (a, c, b)) (getMotorPosnCommands m)"
    by (simp add: getMotorPosnCommands_def Let_def split: option.splits)
  show "TILT_POS_ENG m = 0 \<longrightarrow>
        (\<forall>a b c. getMotorPosnCommands m = Some (a, b, c) \<longrightarrow> b = c)"
    by (auto simp: getMotorPosnCommands_def Let_def split: option.splits if_splits)
qed

theorem negating_tilt_swaps_B_and_C_witness:
  "getMotorPosnCommands \<lparr>TIP_POS_ENG = 0, TILT_POS_ENG = pi / 4, FOCUS_POS_ENG = 0\<rparr>
     = Some (0, 1299, - 1299)
   \<and> getMotorPosnCommands \<lparr>TIP_POS_ENG = 0, TILT_POS_ENG = - (pi / 4), FOCUS_POS_ENG = 0\<rparr>
     = Some (0, - 1299, 1299)
   \<and> TILT_POS_ENG \<lparr>TIP_POS_ENG = 0, TILT_POS_ENG = 0, FOCUS_POS_ENG = 1 / 2\<rparr> = 0
   \<and> getMotorPosnCommands \<lparr>TIP_POS_ENG = 0, TILT_POS_ENG = 0, FOCUS_POS_ENG = 1 / 2\<rparr>
     = Some (2, 2, 2)"
proof -
  let ?m = "\<lparr>TIP_POS_ENG = 0, TILT_POS_ENG = pi / 4, FOCUS_POS_ENG = 0\<rparr>"
  have "getMotorPosnCommands (?m\<lparr>TILT_POS_ENG := - TILT_POS_ENG ?m\<rparr>)
        = map_option (\<lambda>(a, b, c). (a, c, b)) (getMotorPosnCommands ?m)"
    using negating_tilt_swaps_B_and_C [of ?m] by (rule conjunct1)
  then have swapped:
    "getMotorPosnCommands \<lparr>TIP_POS_ENG = 0, TILT_POS_ENG = - (pi / 4), FOCUS_POS_ENG = 0\<rparr>
       = Some (0, - 1299, 1299)"
    by (simp add: steps_at_tilt_45)
  let ?z = "\<lparr>TIP_POS_ENG = 0, TILT_POS_ENG = 0, FOCUS_POS_ENG = 1 / 2\<rparr>"
  have "TILT_POS_ENG ?z = 0 \<longrightarrow>
        (\<forall>a b c. getMotorPosnCommands ?z = Some (a, b, c) \<longrightarrow> b = c)"
    using negating_tilt_swaps_B_and_C [of ?z] by (rule conjunct2)
  moreover have "TILT_POS_ENG ?z = 0"
    by simp
  ultimately have "\<forall>a b c. getMotorPosnCommands ?z = Some (a, b, c) \<longrightarrow> b = c"
    by (rule mp)
  then have equal_at_zero_tilt: "\<exists>n. getMotorPosnCommands ?z = Some (2, n, n)"
    using steps_at_half_micron by blast
  show ?thesis
    using swapped steps_at_tilt_45 steps_at_half_micron equal_at_zero_tilt by simp
qed

section \<open>The foreground program\<close>

lemma range_ControlMode_code: "range ControlMode_code = {0, 1, 2}"
proof
  show "range ControlMode_code \<subseteq> {0, 1, 2}"
  proof
    fix x assume "x \<in> range ControlMode_code"
    then obtain m where "x = ControlMode_code m" by blast
    then show "x \<in> {0, 1, 2}" by (cases m) simp_all
  qed
  have "ControlMode_code STOP = 0" "ControlMode_code RELATIVE = 1" "ControlMode_code ABSOLUTE = 2"
    by simp_all
  then show "{0, 1, 2} \<subseteq> range ControlMode_code"
    by (metis empty_subsetI insert_subset rangeI)
qed

lemma moveType_out_of_enum_example:
  "controlMode (pmc (moveType 7 w)) = 7 \<and> (7 :: 8 word) \<notin> range ControlMode_code"
  by (simp add: moveType_def setControlMode_def range_ControlMode_code)

lemma moveType_narrowing_example: "controlMode (pmc (moveType 256 w)) = ControlMode_code STOP"
  by (simp add: moveType_def setControlMode_def)

lemma moveType_small_values_unchanged:
  assumes "unat mode < 256"
  shows "unat (controlMode (pmc (moveType mode w))) = unat mode"
proof -
  have "unat (ucast mode :: 8 word) = unat mode mod 2 ^ 8"
    by (simp add: unsigned_ucast_eq take_bit_eq_mod)
  then show ?thesis
    using assms by (simp add: moveType_def setControlMode_def)
qed

text \<open>
  Claim C10. The Handshake handler sends the reply (key \<open>Handshake\<close>, value \<open>0xBEEF\<close>)
  if and only if its argument equals \<open>0xDEAD\<close>; for every other argument it sends nothing
  and leaves the whole program state, the controller included, as it was.
\<close>

theorem handshake_replies_iff_DEAD:
  "(sent (handshake val w) = sent w @ [[(''Handshake'', UIntVal 0xBEEF)]]) = (val = 0xDEAD)
   \<and> (val \<noteq> 0xDEAD \<longrightarrow> handshake val w = w)
   \<and> pmc (handshake val w) = pmc w"
  by (simp add: handshake_def sendMessage_def printDebugMessage_def)

theorem handshake_replies_iff_DEAD_witness:
  "(0x1234 :: 32 word) \<noteq> 0xDEAD
   \<and> (\<forall>w. handshake 0x1234 w = w)
   \<and> (\<forall>w. sent (handshake 0xDEAD w) = sent w @ [[(''Handshake'', UIntVal 0xBEEF)]])"
proof -
  have "handshake 0x1234 w = w" for w
    using handshake_replies_iff_DEAD [of "0x1234" w] by simp
  moreover have "sent (handshake 0xDEAD w) = sent w @ [[(''Handshake'', UIntVal 0xBEEF)]]" for w
    using handshake_replies_iff_DEAD [of "0xDEAD" w] by simp
  ultimately show ?thesis by simp
qed

text \<open>
  Claim C9, as the code has it. For every unsigned integer argument, inside or outside
  the \<open>ControlMode\<close> enumeration, the MoveType handler passes its argument to
  \<open>setControlMode\<close> without any check and sends no message to the client. The call
  converts the \<open>unsigned int\<close> to the \<open>uint8_t\<close> parameter, so what \<open>setControlMode\<close>
  receives is the argument modulo 256: the argument itself only when it is below 256.
\<close>

theorem moveType_forwards_unvalidated:
  "pmc (moveType mode w) = setControlMode (ucast mode) (pmc w)
   \<and> controlMode (pmc (moveType mode w)) = ucast mode
   \<and> unat (controlMode (pmc (moveType mode w))) = unat mode mod 256
   \<and> sent (moveType mode w) = sent w
   \<and> debugMessages (moveType mode w) = debugMessages w
   \<and> moveCompleteFlag (moveType mode w) = moveCompleteFlag w"
  by (simp add: moveType_def setControlMode_def unsigned_ucast_eq take_bit_eq_mod)

text \<open>
  The argument 256 does not reach the controller as 256: the conversion at the call
  leaves 0, the code of \<open>STOP\<close>.
\<close>

theorem moveType_does_not_forward_256:
  "unat (controlMode (pmc (moveType 256
      \<lparr>pmc = \<lparr>controlMode = 2, currentMoveState = IDLE, currentHomingState = INITIALIZE,
               moveNotifierFlagPtr = Some Addr_moveCompleteFlag, homeNotifierFlagPtr = None,
               commandedVelocity = (\<lambda>motor. 0),
               eepromRecord = \<lparr>stored_a = 0, stored_b = 0, stored_c = 0, stored_valid = False\<rparr>,
               restoredPositions = None, controlInterruptEnabled = True\<rparr>,
       sent = [], debugMessages = [], moveCompleteFlag = False\<rparr>)))
     \<noteq> unat (256 :: 32 word)
   \<and> controlMode (pmc (moveType 256
      \<lparr>pmc = \<lparr>controlMode = 2, currentMoveState = IDLE, currentHomingState = INITIALIZE,
               moveNotifierFlagPtr = Some Addr_moveCompleteFlag, homeNotifierFlagPtr = None,
               commandedVelocity = (\<lambda>motor. 0),
               eepromRecord = \<lparr>stored_a = 0, stored_b = 0, stored_c = 0, stored_valid = False\<rparr>,
               restoredPositions = None, controlInterruptEnabled = True\<rparr>,
       sent = [], debugMessages = [], moveCompleteFlag = False\<rparr>))
     = ControlMode_code STOP"
  by (simp add: moveType_def setControlMode_def)

text \<open>
  Claim C4. From every \<open>MOVE_STATE\<close> value, \<open>stopNow\<close> leaves the controller in \<open>IDLE\<close>
  with zero commanded velocity on all three actuators, and the Stop handler always runs
  it and always answers \<open>Stopped\<close> with \<open>$OK^\<close>.
\<close>

theorem stop_reaches_IDLE_from_every_state:
  "currentMoveState (stopNow (p\<lparr>currentMoveState := ms\<rparr>)) = IDLE
   \<and> (\<forall>motor. commandedVelocity (stopNow (p\<lparr>currentMoveState := ms\<rparr>)) motor = 0)
   \<and> pmc (stop lst w) = stopNow (pmc w)
   \<and> sent (stop lst w) = sent w @ [[(''Stopped'', StringVal ''$OK^'')]]"
  by (simp add: stop_def stopNow_def sendMessage_def)

text \<open>
  Claim C2, evaluated on the code. \<open>setup()\<close> calls \<open>resetPositionsInEeprom\<close> immediately
  before \<open>loadCurrentPositionsFromEeprom\<close>: a valid stored record that \<open>load\<close> alone would
  return is invalidated first, and nothing is restored.
\<close>

theorem setup_main_discards_stored_positions:
  "load \<lparr>stored_a = 100, stored_b = 200, stored_c = 300, stored_valid = True\<rparr>
     = Some (100, 200, 300)
   \<and> map_option (restoredPositions \<circ> pmc)
        (setup_main True
           (w\<lparr>pmc := (pmc w)\<lparr>eepromRecord :=
              \<lparr>stored_a = 100, stored_b = 200, stored_c = 300, stored_valid = True\<rparr>\<rparr>\<rparr>))
     = Some None
   \<and> map_option (restoredPositions \<circ> pmc) (setup_main True w) = Some None"
  by (simp add: setup_main_def Let_def load_def loadCurrentPositionsFromEeprom_def
      resetPositionsInEeprom_def setMoveNotifierFlag_def enableControlInterrupt_def
      printDebugMessage_def)

text \<open>
  Claim C6, evaluated on the code. For each motor the status reply carries one boolean,
  the result of \<open>bool getStatus(uint8_t)\<close>, under the keys \<open>ARunning?\<close>, \<open>BRunning?\<close> and
  \<open>CRunning?\<close>; no faulted or home bit is reported.
\<close>

theorem getStatus_reports_one_boolean_per_motor:
  "sent (getStatus pmc_getStatus lst w) =
     sent w @ [[(''ARunning?'', BoolVal (pmc_getStatus (pmc w) MOTOR_A)),
                (''BRunning?'', BoolVal (pmc_getStatus (pmc w) MOTOR_B)),
                (''CRunning?'', BoolVal (pmc_getStatus (pmc w) MOTOR_C))]]"
  by (simp add: getStatus_def sendMessage_def)

text \<open>
  Claim C7, evaluated on the code. One iteration of \<open>loop()\<close> polls \<open>moveCompleteFlag\<close>
  once, reports it with a \<open>MoveComplete\<close> message when set and leaves it cleared; and
  \<open>setup()\<close> registers that flag with the controller. No homing-complete flag is polled
  or reported, and \<open>setup()\<close> leaves the controller's homing notifier pointer as it found
  it.
\<close>

theorem loop_polls_only_moveCompleteFlag:
  "sent (loop serviceClients w) =
     sent (serviceClients w)
       @ (if moveCompleteFlag (serviceClients w)
          then [[(''MoveComplete'', UIntVal 0xBEEF)]] else [])
   \<and> \<not> moveCompleteFlag (loop serviceClients w)
   \<and> map_option (moveNotifierFlagPtr \<circ> pmc) (setup_main True w)
       = Some (Some Addr_moveCompleteFlag)
   \<and> map_option (homeNotifierFlagPtr \<circ> pmc) (setup_main True w)
       = Some (homeNotifierFlagPtr (pmc w))"
  by (simp add: loop_def setup_main_def Let_def sendMessage_def printDebugMessage_def
      loadCurrentPositionsFromEeprom_def resetPositionsInEeprom_def setMoveNotifierFlag_def
      enableControlInterrupt_def)

end
